theory Spec2Isabelle
  imports Complex_Main "HOL-Library.AList"
begin

section \<open>The outside world: the MIDI library, the clock, the console\<close>

text \<open>
  \<^verbatim>\<open>src/midi/midi_manager.py\<close> talks to three things it does not own: the \<^verbatim>\<open>mido\<close> library
  (enumerating ports, opening them, closing them, sending on them), the clock
  \<^verbatim>\<open>time.monotonic\<close>, and the callable registered as input callback. Each of them may
  raise. An exception is a value: \<open>Exception e\<close> stands for an instance of a subclass of
  Python's \<^verbatim>\<open>Exception\<close> whose \<^verbatim>\<open>str\<close> is \<open>e\<close>, which is what an \<^verbatim>\<open>except Exception\<close>
  clause handles.
\<close>

datatype exn = Exception string

text \<open>
  A \<^verbatim>\<open>mido.Message\<close> is kept as the constructor call that built it: its type name and its
  keyword arguments. The manager never inspects a message.
\<close>

datatype message = Message string "(string \<times> int) list"

text \<open>
  A port object and a callable are known by their identity only. A timestamp is the number
  \<^verbatim>\<open>time.monotonic()\<close> returned; the code passes it on and never computes with it.
\<close>

type_synonym handle = nat
type_synonym callback = nat
type_synonym timestamp = real

text \<open>Every call that leaves the program, in the order it was made.\<close>

datatype ext_call =
    GetOutputNames
  | GetInputNames
  | OpenOutput string
  | OpenInput string
  | PortClose handle
  | PortSend handle message
  | Monotonic
  | InputCallback callback message timestamp

text \<open>
  The environment decides how each outside call ends, given the calls made so far: it
  returns (\<open>Inr\<close>) or raises (\<open>Inl\<close>). Nothing is assumed about it, so a device may vanish
  between any two calls.
\<close>

record env =
  mido_get_output_names :: "ext_call list \<Rightarrow> exn + string list"
  mido_get_input_names :: "ext_call list \<Rightarrow> exn + string list"
  mido_open_output :: "ext_call list \<Rightarrow> string \<Rightarrow> exn + handle"
  mido_open_input :: "ext_call list \<Rightarrow> string \<Rightarrow> exn + handle"
  port_close :: "ext_call list \<Rightarrow> handle \<Rightarrow> exn + unit"
  port_send :: "ext_call list \<Rightarrow> handle \<Rightarrow> message \<Rightarrow> exn + unit"
  time_monotonic :: "ext_call list \<Rightarrow> timestamp"
  invoke_callback :: "ext_call list \<Rightarrow> callback \<Rightarrow> message \<Rightarrow> timestamp \<Rightarrow> exn + unit"

record world =
  calls :: "ext_call list"
  console :: "string list"

definition print_line :: "string \<Rightarrow> world \<Rightarrow> world" where
  "print_line s w = w\<lparr>console := console w @ [s]\<rparr>"

definition call :: "ext_call \<Rightarrow> world \<Rightarrow> world" where
  "call c w = w\<lparr>calls := calls w @ [c]\<rparr>"

section \<open>MidiManager\<close>

record midi_manager =
  current_output_name :: "string option"
  current_output :: "handle option"
  current_input_name :: "string option"
  current_input :: "handle option"
  input_callback :: "callback option"

text \<open>
  A method takes the environment, its arguments, \<open>self\<close> and the world, and gives back what
  it returned (\<open>Inr\<close>) or raised (\<open>Inl\<close>) together with \<open>self\<close> and the world as it left
  them: an exception keeps the assignments made before it.
\<close>

type_synonym 'a outcome = "(exn + 'a) \<times> midi_manager \<times> world"

definition MidiManager_init :: midi_manager where
  "MidiManager_init =
     \<lparr>current_output_name = None, current_output = None,
      current_input_name = None, current_input = None,
      input_callback = None\<rparr>"

definition list_output_ports :: "env \<Rightarrow> midi_manager \<Rightarrow> world \<Rightarrow> string list outcome" where
  "list_output_ports E self w =
     (case mido_get_output_names E (calls w) of
        Inr ports \<Rightarrow> (Inr ports, self, call GetOutputNames w)
      | Inl (Exception e) \<Rightarrow>
          (Inr [], self,
           print_line (''Error listing MIDI output ports: '' @ e) (call GetOutputNames w)))"

text \<open>
  \<^verbatim>\<open>try: port.close()  except Exception: pass\<close>: the call is made and its outcome dropped.
\<close>

definition close_quietly :: "env \<Rightarrow> handle \<Rightarrow> world \<Rightarrow> world" where
  "close_quietly E h w =
     (case port_close E (calls w) h of
        Inr _ \<Rightarrow> call (PortClose h) w
      | Inl _ \<Rightarrow> call (PortClose h) w)"

definition select_output :: "env \<Rightarrow> string \<Rightarrow> midi_manager \<Rightarrow> world \<Rightarrow> bool outcome" where
  "select_output E name self w =
     (let (self1, w1) =
            (case current_output self of
               None \<Rightarrow> (self, w)
             | Some h \<Rightarrow>
                 (self\<lparr>current_output := None, current_output_name := None\<rparr>,
                  close_quietly E h w))
      in if name = [] then (Inr False, self1, w1)
         else
           (case mido_open_output E (calls w1) name of
              Inr p \<Rightarrow>
                (Inr True,
                 self1\<lparr>current_output := Some p, current_output_name := Some name\<rparr>,
                 print_line (''Opened MIDI output: '' @ name) (call (OpenOutput name) w1))
            | Inl (Exception e) \<Rightarrow>
                (Inr False,
                 self1\<lparr>current_output := None, current_output_name := None\<rparr>,
                 print_line (''Error opening MIDI output '' @ name @ '': '' @ e)
                   (call (OpenOutput name) w1))))"

definition send_test_note :: "env \<Rightarrow> midi_manager \<Rightarrow> world \<Rightarrow> unit outcome" where
  "send_test_note E self w =
     (case current_output self of
        None \<Rightarrow> (Inr (), self, print_line ''No MIDI output selected / open.'' w)
      | Some h \<Rightarrow>
          (let msg_on = Message ''note_on'' [(''channel'', 0), (''note'', 60), (''velocity'', 100)]
           in case port_send E (calls w) h msg_on of
                Inl e \<Rightarrow> (Inl e, self, call (PortSend h msg_on) w)
              | Inr _ \<Rightarrow>
                  (Inr (), self,
                   print_line ''Sent test drum note (note 60).'' (call (PortSend h msg_on) w))))"

definition send_message :: "env \<Rightarrow> message \<Rightarrow> midi_manager \<Rightarrow> world \<Rightarrow> unit outcome" where
  "send_message E msg self w =
     (case current_output self of
        None \<Rightarrow> (Inr (), self, print_line ''No MIDI output selected / open'' w)
      | Some h \<Rightarrow>
          (case port_send E (calls w) h msg of
             Inl e \<Rightarrow> (Inl e, self, call (PortSend h msg) w)
           | Inr _ \<Rightarrow> (Inr (), self, call (PortSend h msg) w)))"

definition list_input_ports :: "env \<Rightarrow> midi_manager \<Rightarrow> world \<Rightarrow> string list outcome" where
  "list_input_ports E self w =
     (case mido_get_input_names E (calls w) of
        Inr ports \<Rightarrow> (Inr ports, self, call GetInputNames w)
      | Inl (Exception e) \<Rightarrow>
          (Inr [], self,
           print_line (''Error listing MIDI input ports: '' @ e) (call GetInputNames w)))"

definition select_input ::
  "env \<Rightarrow> string \<Rightarrow> callback option \<Rightarrow> midi_manager \<Rightarrow> world \<Rightarrow> bool outcome" where
  "select_input E name cb self w =
     (let (self1, w1) =
            (case current_input self of
               None \<Rightarrow> (self, w)
             | Some h \<Rightarrow>
                 (self\<lparr>current_input := None, current_input_name := None,
                       input_callback := None\<rparr>,
                  close_quietly E h w))
      in if name = [] then (Inr False, self1, w1)
         else
           (let self2 = self1\<lparr>input_callback := cb\<rparr>
            in case mido_open_input E (calls w1) name of
                 Inr p \<Rightarrow>
                   (Inr True,
                    self2\<lparr>current_input := Some p, current_input_name := Some name\<rparr>,
                    print_line (''Opened MIDI input: '' @ name) (call (OpenInput name) w1))
               | Inl (Exception e) \<Rightarrow>
                   (Inr False,
                    self2\<lparr>current_input := None, current_input_name := None,
                          input_callback := None\<rparr>,
                    print_line (''Error opening MIDI input '' @ name @ '': '' @ e)
                      (call (OpenInput name) w1))))"

text \<open>
  \<^verbatim>\<open>_handle_input_message\<close> (a HOL name cannot start with an underscore). The port that
  \<^verbatim>\<open>mido.open_input\<close> returned calls it for each message that arrives.
\<close>

definition handle_input_message ::
  "env \<Rightarrow> message \<Rightarrow> midi_manager \<Rightarrow> world \<Rightarrow> unit outcome" where
  "handle_input_message E msg self w =
     (let ts = time_monotonic E (calls w);
          w1 = call Monotonic w
      in case input_callback self of
           None \<Rightarrow> (Inr (), self, w1)
         | Some cb \<Rightarrow>
             (case invoke_callback E (calls w1) cb msg ts of
                Inr _ \<Rightarrow> (Inr (), self, call (InputCallback cb msg ts) w1)
              | Inl (Exception e) \<Rightarrow>
                  (Inr (), self,
                   print_line (''Error in input_callback: '' @ e)
                     (call (InputCallback cb msg ts) w1))))"

definition close_all :: "env \<Rightarrow> midi_manager \<Rightarrow> world \<Rightarrow> unit outcome" where
  "close_all E self w =
     (let (self1, w1) =
            (case current_output self of
               None \<Rightarrow> (self, w)
             | Some h \<Rightarrow>
                 (self\<lparr>current_output := None, current_output_name := None\<rparr>,
                  close_quietly E h w));
          (self2, w2) =
            (case current_input self1 of
               None \<Rightarrow> (self1, w1)
             | Some h \<Rightarrow>
                 (self1\<lparr>current_input := None, current_input_name := None\<rparr>,
                  close_quietly E h w1))
      in (Inr (), self2, w2))"

section \<open>MainWindow\<close>

text \<open>
  \<^verbatim>\<open>src/gui/main_window.py\<close>. The Qt widgets are records of the attributes the code sets
  or reads. Layout objects, which only place widgets, are left out. Qt itself is taken not
  to raise.
\<close>

abbreviation nl :: char where "nl \<equiv> CHR 0x0A"
abbreviation apostrophe :: char where "apostrophe \<equiv> CHR 0x27"

record button =
  button_text :: string
  button_enabled :: bool
  checkable :: bool

record combo_box =
  items :: "string list"
  item_data :: "((int \<times> int) \<times> int) list"
  current_index :: int
  combo_enabled :: bool
  signals_blocked :: bool
  size_policy :: "(string \<times> string) option"
  fixed_width :: "int option"

record label =
  label_text :: string
  alignment :: string
  style_sheet :: string

definition QPushButton :: "string \<Rightarrow> button" where
  "QPushButton t = \<lparr>button_text = t, button_enabled = True, checkable = False\<rparr>"

definition QComboBox :: combo_box where
  "QComboBox =
     \<lparr>items = [], item_data = [], current_index = - 1, combo_enabled = True,
      signals_blocked = False, size_policy = None, fixed_width = None\<rparr>"

definition QLabel :: "string \<Rightarrow> label" where
  "QLabel t = \<lparr>label_text = t, alignment = ''AlignLeft'', style_sheet = []\<rparr>"

text \<open>
  What Qt does on the combo box calls the code makes: \<^verbatim>\<open>clear\<close> leaves no current item,
  and the first item added to an empty box becomes the current one.
\<close>

definition clear :: "combo_box \<Rightarrow> combo_box" where
  "clear c = c\<lparr>items := [], item_data := [], current_index := - 1\<rparr>"

definition addItems :: "string list \<Rightarrow> combo_box \<Rightarrow> combo_box" where
  "addItems ts c =
     c\<lparr>items := items c @ ts,
       current_index := (if items c = [] \<and> ts \<noteq> [] then 0 else current_index c)\<rparr>"

definition addItem :: "string \<Rightarrow> combo_box \<Rightarrow> combo_box" where
  "addItem t c = addItems [t] c"

definition UserRole :: int where
  "UserRole = 256"

definition setItemData :: "int \<Rightarrow> int \<Rightarrow> int \<Rightarrow> combo_box \<Rightarrow> combo_box" where
  "setItemData i v role c = c\<lparr>item_data := AList.update (i, role) v (item_data c)\<rparr>"

record main_window =
  window_title :: string
  window_size :: "int \<times> int"
  midi_manager :: midi_manager
  play_button :: button
  stop_button :: button
  record_button :: button
  input_combo :: combo_box
  output_combo :: combo_box
  test_note_button :: button
  refresh_midi_button :: button
  placeholder_label :: label

type_synonym slot_outcome = "(exn + unit) \<times> main_window \<times> world"

text \<open>One statement after another: an exception ends the sequence.\<close>

definition and_then ::
  "slot_outcome \<Rightarrow> (main_window \<Rightarrow> world \<Rightarrow> slot_outcome) \<Rightarrow> slot_outcome" where
  "and_then r f = (case r of (Inl e, win, w) \<Rightarrow> (Inl e, win, w) | (Inr _, win, w) \<Rightarrow> f win w)"

definition setText :: "string \<Rightarrow> label \<Rightarrow> label" where
  "setText t l = l\<lparr>label_text := t\<rparr>"

definition refresh_midi_outputs :: "env \<Rightarrow> main_window \<Rightarrow> world \<Rightarrow> slot_outcome" where
  "refresh_midi_outputs E win w =
     (case list_output_ports E (midi_manager win) w of
        (Inl e, mm, w') \<Rightarrow> (Inl e, win\<lparr>midi_manager := mm\<rparr>, w')
      | (Inr ports, mm, w') \<Rightarrow>
          (let c0 = clear ((output_combo win)\<lparr>signals_blocked := True\<rparr>)
           in if ports = [] then
                (Inr (),
                 win\<lparr>midi_manager := mm,
                     output_combo :=
                       (addItem ''No MIDI outputs'' c0)
                         \<lparr>combo_enabled := False, signals_blocked := False\<rparr>,
                     test_note_button := (test_note_button win)\<lparr>button_enabled := False\<rparr>\<rparr>,
                 w')
              else
                (Inr (),
                 win\<lparr>midi_manager := mm,
                     output_combo :=
                       (addItems ports
                          (setItemData 0 0 (UserRole - 1) (addItem ''Select MIDI Output'' c0)))
                         \<lparr>combo_enabled := True, current_index := 0, signals_blocked := False\<rparr>,
                     test_note_button := (test_note_button win)\<lparr>button_enabled := True\<rparr>\<rparr>,
                 w')))"

definition refresh_midi_inputs :: "env \<Rightarrow> main_window \<Rightarrow> world \<Rightarrow> slot_outcome" where
  "refresh_midi_inputs E win w =
     (case list_input_ports E (midi_manager win) w of
        (Inl e, mm, w') \<Rightarrow> (Inl e, win\<lparr>midi_manager := mm\<rparr>, w')
      | (Inr ports, mm, w') \<Rightarrow>
          (let c0 = clear ((input_combo win)\<lparr>signals_blocked := True\<rparr>)
           in if ports = [] then
                (Inr (),
                 win\<lparr>midi_manager := mm,
                     input_combo :=
                       (addItem ''No MIDI inputs'' c0)
                         \<lparr>combo_enabled := False, signals_blocked := False\<rparr>\<rparr>,
                 w')
              else
                (Inr (),
                 win\<lparr>midi_manager := mm,
                     input_combo :=
                       (addItems ports
                          (setItemData 0 0 (UserRole - 1) (addItem ''Select MIDI Input'' c0)))
                         \<lparr>combo_enabled := True, current_index := 0, signals_blocked := False\<rparr>\<rparr>,
                 w')))"

definition print_ports :: "string list \<Rightarrow> world \<Rightarrow> world" where
  "print_ports ports w =
     (if ports = [] then print_line ''  (none)'' w
      else fold (\<lambda>name. print_line (''  - '' @ name)) ports w)"

definition log_available_midi_ports :: "env \<Rightarrow> main_window \<Rightarrow> world \<Rightarrow> slot_outcome" where
  "log_available_midi_ports E win w =
     (case list_output_ports E (midi_manager win) w of
        (Inl e, mm, w1) \<Rightarrow> (Inl e, win\<lparr>midi_manager := mm\<rparr>, w1)
      | (Inr out_ports, mm, w1) \<Rightarrow>
          (case list_input_ports E mm w1 of
             (Inl e, mm', w2) \<Rightarrow> (Inl e, win\<lparr>midi_manager := mm'\<rparr>, w2)
           | (Inr in_ports, mm', w2) \<Rightarrow>
               (let w3 = print_ports in_ports
                           (print_line ''MIDI inputs:''
                              (print_ports out_ports (print_line ''MIDI outputs:'' w2)))
                in if out_ports = [] \<and> in_ports = [] then
                     (Inr (),
                      win\<lparr>midi_manager := mm',
                          placeholder_label :=
                            setText (''No MIDI inputs or outputs found.'' @ [nl] @
                                     ''(Is a virtual or hardware MIDI device available?)'')
                              (placeholder_label win)\<rparr>,
                      w3)
                   else
                     (Inr (), win\<lparr>midi_manager := mm'\<rparr>,
                      print_line (''MIDI ports detected.'' @ [nl] @
                                  ''Select In/Out at the top and use '' @ [apostrophe] @
                                  ''Test Note'' @ [apostrophe] @ ''.'') w3))))"

text \<open>
  The window as \<^verbatim>\<open>__init__\<close> and \<^verbatim>\<open>_create_central_widget\<close> build it before the first
  call to the MIDI manager (lines 16 to 96).
\<close>

definition new_window :: main_window where
  "new_window =
     \<lparr>window_title = ''Drum MIDI App (Skeleton)'',
      window_size = (1200, 800),
      midi_manager = MidiManager_init,
      play_button = QPushButton ''Play'',
      stop_button = QPushButton ''Stop'',
      record_button = (QPushButton ''Record'')\<lparr>checkable := True\<rparr>,
      input_combo = QComboBox\<lparr>size_policy := Some (''Fixed'', ''Fixed''), fixed_width := Some 200\<rparr>,
      output_combo = QComboBox\<lparr>size_policy := Some (''Fixed'', ''Fixed''), fixed_width := Some 200\<rparr>,
      test_note_button = QPushButton ''Test Note'',
      refresh_midi_button = QPushButton ''Refresh MIDI'',
      placeholder_label =
        (QLabel (''Drum MIDI App'' @ [nl] @ ''(Timeline / Drum Grid will go here)''))
          \<lparr>alignment := ''AlignCenter'', style_sheet := ''font-size: 18px; color: #555;''\<rparr>\<rparr>"

definition create_central_widget :: "env \<Rightarrow> world \<Rightarrow> slot_outcome" where
  "create_central_widget E w =
     and_then (refresh_midi_outputs E new_window w) (refresh_midi_inputs E)"

definition MainWindow_init :: "env \<Rightarrow> world \<Rightarrow> slot_outcome" where
  "MainWindow_init E w = and_then (create_central_widget E w) (log_available_midi_ports E)"

subsection \<open>Handlers\<close>

definition on_play_clicked :: "main_window \<Rightarrow> world \<Rightarrow> slot_outcome" where
  "on_play_clicked win w =
     (Inr (),
      win\<lparr>placeholder_label :=
            setText (''Play clicked'' @ [nl] @ ''(Placeholder: no audio yet)'')
              (placeholder_label win)\<rparr>,
      print_line ''Play clicked'' w)"

definition on_stop_clicked :: "main_window \<Rightarrow> world \<Rightarrow> slot_outcome" where
  "on_stop_clicked win w =
     (Inr (),
      win\<lparr>placeholder_label :=
            setText (''Stop clicked'' @ [nl] @ ''(Placeholder: transport stopped)'')
              (placeholder_label win)\<rparr>,
      print_line ''Stop clicked'' w)"

definition on_record_toggled :: "bool \<Rightarrow> main_window \<Rightarrow> world \<Rightarrow> slot_outcome" where
  "on_record_toggled checked win w =
     (if checked then
        (Inr (),
         win\<lparr>record_button := (record_button win)\<lparr>button_text := ''Recording...''\<rparr>,
             placeholder_label :=
               setText (''Recording...'' @ [nl] @ ''(Placeholder: no MIDI yet)'')
                 (placeholder_label win)\<rparr>,
         print_line ''Record started'' w)
      else
        (Inr (),
         win\<lparr>record_button := (record_button win)\<lparr>button_text := ''Record''\<rparr>,
             placeholder_label :=
               setText (''Recording stopped'' @ [nl] @ ''(Timeline / Drum Grid will go here)'')
                 (placeholder_label win)\<rparr>,
         print_line ''Record stopped'' w))"

definition on_output_changed :: "env \<Rightarrow> string \<Rightarrow> main_window \<Rightarrow> world \<Rightarrow> slot_outcome" where
  "on_output_changed E name win w =
     (if name = [] \<or> name \<in> set [''Select MIDI Output'', ''No MIDI outputs''] then (Inr (), win, w)
      else
        (case select_output E name (midi_manager win) w of
           (Inl e, mm, w') \<Rightarrow> (Inl e, win\<lparr>midi_manager := mm\<rparr>, w')
         | (Inr ok, mm, w') \<Rightarrow>
             (Inr (),
              win\<lparr>midi_manager := mm,
                  placeholder_label :=
                    setText
                      (if ok then ''Selected MIDI output:'' @ [nl] @ name
                       else ''Failed to open MIDI output:'' @ [nl] @ name)
                      (placeholder_label win)\<rparr>,
              w')))"

definition on_input_changed :: "env \<Rightarrow> string \<Rightarrow> main_window \<Rightarrow> world \<Rightarrow> slot_outcome" where
  "on_input_changed E name win w =
     (if name = [] \<or> name \<in> set [''Select MIDI Input'', ''No MIDI inputs''] then (Inr (), win, w)
      else
        (case select_input E name None (midi_manager win) w of
           (Inl e, mm, w') \<Rightarrow> (Inl e, win\<lparr>midi_manager := mm\<rparr>, w')
         | (Inr ok, mm, w') \<Rightarrow>
             (Inr (),
              win\<lparr>midi_manager := mm,
                  placeholder_label :=
                    setText
                      (if ok then
                         ''Selected MIDI input:'' @ [nl] @ name @ [nl] @
                         ''Incoming MIDI will be printed to the console.''
                       else ''Failed to open MIDI input:'' @ [nl] @ name)
                      (placeholder_label win)\<rparr>,
              w')))"

definition on_test_note_clicked :: "env \<Rightarrow> main_window \<Rightarrow> world \<Rightarrow> slot_outcome" where
  "on_test_note_clicked E win w =
     (if current_output (midi_manager win) = None then
        (Inr (),
         win\<lparr>placeholder_label :=
               setText (''No MIDI output selected.'' @ [nl] @
                        ''Choose a device from the '' @ [apostrophe] @ ''Out'' @ [apostrophe] @
                        '' dropdown first.'')
                 (placeholder_label win)\<rparr>,
         print_line ''Test Note clicked, but no MIDI output selected.'' w)
      else
        (case send_test_note E (midi_manager win) w of
           (Inl e, mm, w') \<Rightarrow> (Inl e, win\<lparr>midi_manager := mm\<rparr>, w')
         | (Inr _, mm, w') \<Rightarrow>
             (Inr (),
              win\<lparr>midi_manager := mm,
                  placeholder_label :=
                    setText (''Sent test drum note.'' @ [nl] @
                             ''If nothing is heard, check your MIDI routing.'')
                      (placeholder_label win)\<rparr>,
              w')))"

definition on_refresh_midi_clicked :: "env \<Rightarrow> main_window \<Rightarrow> world \<Rightarrow> slot_outcome" where
  "on_refresh_midi_clicked E win w =
     and_then
       (and_then
          (and_then (refresh_midi_outputs E win (print_line ''Refreshing MIDI inputs/outputs...'' w))
             (refresh_midi_inputs E))
          (log_available_midi_ports E))
       (\<lambda>win' w'.
          (Inr (),
           win'\<lparr>placeholder_label :=
                 setText (''Refreshed MIDI ports.'' @ [nl]) (placeholder_label win')\<rparr>,
           w'))"

text \<open>
  \<^verbatim>\<open>_connect_signals\<close>: which handler each signal of the user interface runs.
\<close>

datatype signal =
    PlayClicked
  | StopClicked
  | RecordToggled bool
  | OutputTextChanged string
  | InputTextChanged string
  | TestNoteClicked
  | RefreshMidiClicked

fun connect_signals :: "env \<Rightarrow> signal \<Rightarrow> main_window \<Rightarrow> world \<Rightarrow> slot_outcome" where
  "connect_signals E PlayClicked = on_play_clicked"
| "connect_signals E StopClicked = on_stop_clicked"
| "connect_signals E (RecordToggled checked) = on_record_toggled checked"
| "connect_signals E (OutputTextChanged name) = on_output_changed E name"
| "connect_signals E (InputTextChanged name) = on_input_changed E name"
| "connect_signals E TestNoteClicked = on_test_note_clicked E"
| "connect_signals E RefreshMidiClicked = on_refresh_midi_clicked E"

section \<open>Sequences of operations, and environments to run them in\<close>

text \<open>
  The public surface of \<^verbatim>\<open>MidiManager\<close>, one constructor per method, and the state a
  sequence of calls leaves behind whatever each call returned or raised.
\<close>

datatype operation =
    ListOutputPorts
  | SelectOutput string
  | SendTestNote
  | SendMessage message
  | ListInputPorts
  | SelectInput string "callback option"
  | HandleInputMessage message
  | CloseAll

fun perform :: "env \<Rightarrow> operation \<Rightarrow> midi_manager \<Rightarrow> world \<Rightarrow> midi_manager \<times> world" where
  "perform E ListOutputPorts self w = snd (list_output_ports E self w)"
| "perform E (SelectOutput name) self w = snd (select_output E name self w)"
| "perform E SendTestNote self w = snd (send_test_note E self w)"
| "perform E (SendMessage msg) self w = snd (send_message E msg self w)"
| "perform E ListInputPorts self w = snd (list_input_ports E self w)"
| "perform E (SelectInput name cb) self w = snd (select_input E name cb self w)"
| "perform E (HandleInputMessage msg) self w = snd (handle_input_message E msg self w)"
| "perform E CloseAll self w = snd (close_all E self w)"

fun run :: "env \<Rightarrow> operation list \<Rightarrow> midi_manager \<Rightarrow> world \<Rightarrow> midi_manager \<times> world" where
  "run E [] self w = (self, w)"
| "run E (x # xs) self w = (case perform E x self w of (self', w') \<Rightarrow> run E xs self' w')"

text \<open>A port handle is held exactly when its name is.\<close>

definition paired :: "midi_manager \<Rightarrow> bool" where
  "paired self =
     ((current_output self = None) = (current_output_name self = None) \<and>
      (current_input self = None) = (current_input_name self = None))"

text \<open>
  Three environments: one where a drum kit is plugged in and every call succeeds, one where
  the device is gone and every call raises, and one where the port opens and then every
  send on it raises.
\<close>

definition working_env :: env where
  "working_env =
     \<lparr>mido_get_output_names = (\<lambda>_. Inr [''Drum Kit'']),
      mido_get_input_names = (\<lambda>_. Inr [''Drum Kit'']),
      mido_open_output = (\<lambda>_ _. Inr 1),
      mido_open_input = (\<lambda>_ _. Inr 2),
      port_close = (\<lambda>_ _. Inr ()),
      port_send = (\<lambda>_ _ _. Inr ()),
      time_monotonic = (\<lambda>cs. real (length cs)),
      invoke_callback = (\<lambda>_ _ _ _. Inr ())\<rparr>"

definition unplugged_env :: env where
  "unplugged_env =
     \<lparr>mido_get_output_names = (\<lambda>_. Inl (Exception ''device disconnected'')),
      mido_get_input_names = (\<lambda>_. Inl (Exception ''device disconnected'')),
      mido_open_output = (\<lambda>_ _. Inl (Exception ''device disconnected'')),
      mido_open_input = (\<lambda>_ _. Inl (Exception ''device disconnected'')),
      port_close = (\<lambda>_ _. Inl (Exception ''device disconnected'')),
      port_send = (\<lambda>_ _ _. Inl (Exception ''device disconnected'')),
      time_monotonic = (\<lambda>cs. real (length cs)),
      invoke_callback = (\<lambda>_ _ _ _. Inl (Exception ''callback failed''))\<rparr>"

definition send_fails_env :: env where
  "send_fails_env = working_env\<lparr>port_send := (\<lambda>_ _ _. Inl (Exception ''device disconnected''))\<rparr>"

definition world0 :: world where
  "world0 = \<lparr>calls = [], console = []\<rparr>"

text \<open>
  The manager once \<open>Drum Kit\<close> has been selected as output, on a device that accepts the
  open. The window after its constructor has run and Play has been clicked.
\<close>

definition drum_kit_selected :: "midi_manager \<times> world" where
  "drum_kit_selected = snd (select_output send_fails_env ''Drum Kit'' MidiManager_init world0)"

definition play_clicked_window :: "main_window \<times> world" where
  "play_clicked_window =
     (case MainWindow_init working_env world0 of
        (_, win, w) \<Rightarrow> snd (connect_signals working_env PlayClicked win w))"

section \<open>Facts about single methods\<close>

lemma calls_close_quietly: "calls (close_quietly E h w) = calls w @ [PortClose h]"
  by (simp add: close_quietly_def call_def split: sum.splits)

lemma console_close_quietly: "console (close_quietly E h w) = console w"
  by (simp add: close_quietly_def call_def split: sum.splits)

lemma self_list_output_ports: "fst (snd (list_output_ports E self w)) = self"
  by (simp add: list_output_ports_def split: sum.splits exn.splits)

lemma self_list_input_ports: "fst (snd (list_input_ports E self w)) = self"
  by (simp add: list_input_ports_def split: sum.splits exn.splits)

lemma self_send_test_note: "fst (snd (send_test_note E self w)) = self"
  by (simp add: send_test_note_def Let_def split: option.splits sum.splits)

lemma self_send_message: "fst (snd (send_message E msg self w)) = self"
  by (simp add: send_message_def split: option.splits sum.splits)

lemma self_handle_input_message: "fst (snd (handle_input_message E msg self w)) = self"
  by (simp add: handle_input_message_def Let_def split: option.splits sum.splits exn.splits)

lemma paired_init: "paired MidiManager_init"
  by (simp add: paired_def MidiManager_init_def)

lemma paired_select_output: "paired self \<Longrightarrow> paired (fst (snd (select_output E name self w)))"
  by (simp add: paired_def select_output_def call_def print_line_def Let_def
        split: option.splits sum.splits exn.splits)

lemma paired_select_input:
  "paired self \<Longrightarrow> paired (fst (snd (select_input E name cb self w)))"
  by (simp add: paired_def select_input_def call_def print_line_def Let_def
        split: option.splits sum.splits exn.splits)

lemma paired_close_all: "paired self \<Longrightarrow> paired (fst (snd (close_all E self w)))"
  by (simp add: paired_def close_all_def Let_def split: option.splits)

lemma paired_perform: "paired self \<Longrightarrow> paired (fst (perform E x self w))"
  by (cases x)
     (simp_all add: paired_select_output paired_select_input paired_close_all
        self_list_output_ports self_list_input_ports self_send_test_note self_send_message
        self_handle_input_message)

lemma paired_run: "paired self \<Longrightarrow> paired (fst (run E xs self w))"
proof (induction xs arbitrary: self w)
  case Nil
  then show ?case by simp
next
  case (Cons x xs)
  obtain self' w' where step: "perform E x self w = (self', w')"
    by (cases "perform E x self w")
  with Cons.prems have "paired self'"
    using paired_perform [of self E x w] by simp
  then have "paired (fst (run E xs self' w'))"
    by (rule Cons.IH)
  with step show ?case by simp
qed

lemma close_all_result: "fst (close_all E self w) = Inr ()"
  by (simp add: close_all_def Let_def split: option.splits prod.splits)

lemma close_all_ports_none:
  "current_output (fst (snd (close_all E self w))) = None \<and>
   current_input (fst (snd (close_all E self w))) = None"
  by (simp add: close_all_def Let_def split: option.splits prod.splits)

lemma close_all_names_none:
  "paired self \<Longrightarrow>
   current_output_name (fst (snd (close_all E self w))) = None \<and>
   current_input_name (fst (snd (close_all E self w))) = None"
  by (simp add: paired_def close_all_def Let_def split: option.splits prod.splits)

lemma close_all_again:
  "close_all E' (fst (snd (close_all E self w))) (snd (snd (close_all E self w))) =
     (Inr (), snd (close_all E self w))"
  by (simp add: close_all_def Let_def split: option.splits prod.splits)

text \<open>
  The methods that guard their device calls return whatever the device does: listing,
  selecting, closing and the input handler never raise.
\<close>

lemma list_output_ports_returns: "\<exists>ports. fst (list_output_ports E self w) = Inr ports"
  by (simp add: list_output_ports_def split: sum.splits exn.splits)

lemma list_input_ports_returns: "\<exists>ports. fst (list_input_ports E self w) = Inr ports"
  by (simp add: list_input_ports_def split: sum.splits exn.splits)

lemma select_output_returns: "\<exists>ok. fst (select_output E name self w) = Inr ok"
  by (auto simp add: select_output_def Let_def split: option.splits sum.splits exn.splits)

lemma select_input_returns: "\<exists>ok. fst (select_input E name cb self w) = Inr ok"
  by (auto simp add: select_input_def Let_def split: option.splits sum.splits exn.splits)

lemma handle_input_message_returns: "fst (handle_input_message E msg self w) = Inr ()"
  by (simp add: handle_input_message_def Let_def split: option.splits sum.splits exn.splits)

lemma guarded_methods_return:
  "(\<exists>ports. fst (list_output_ports E self w) = Inr ports) \<and>
   (\<exists>ports. fst (list_input_ports E self w) = Inr ports) \<and>
   (\<exists>ok. fst (select_output E name self w) = Inr ok) \<and>
   (\<exists>ok. fst (select_input E name cb self w) = Inr ok) \<and>
   fst (handle_input_message E msg self w) = Inr () \<and>
   fst (close_all E self w) = Inr ()"
  using list_output_ports_returns [of E self w] list_input_ports_returns [of E self w]
    select_output_returns [of E name self w] select_input_returns [of E name cb self w]
    handle_input_message_returns [of E msg self w] close_all_result [of E self w]
  by blast

section \<open>The claims\<close>

text \<open>
  C1. The claim: every device failure is caught at the \<^verbatim>\<open>MidiManager\<close> boundary and reported
  as status, and no operation, \<^verbatim>\<open>send_test_note\<close> and \<^verbatim>\<open>send_message\<close> included, lets an
  exception reach its caller. The two send methods call \<^verbatim>\<open>self.current_output.send\<close> outside
  any \<^verbatim>\<open>try\<close>, unlike every other device call of the class (\<open>guarded_methods_return\<close>).
  Here the output \<open>Drum Kit\<close> has been opened with success and the device then refuses the
  send: \<^verbatim>\<open>send_test_note\<close> and \<^verbatim>\<open>send_message\<close> raise, and so does the Test Note handler of
  the window, which calls the first without a guard of its own.
\<close>

theorem send_failure_escapes:
  "fst (select_output send_fails_env ''Drum Kit'' MidiManager_init world0) = Inr True \<and>
   current_output (fst drum_kit_selected) = Some 1 \<and>
   fst (send_test_note send_fails_env (fst drum_kit_selected) (snd drum_kit_selected)) =
     Inl (Exception ''device disconnected'') \<and>
   fst (send_message send_fails_env (Message ''note_off'' [(''note'', 60)])
          (fst drum_kit_selected) (snd drum_kit_selected)) =
     Inl (Exception ''device disconnected'') \<and>
   fst (connect_signals send_fails_env TestNoteClicked
          (new_window\<lparr>midi_manager := fst drum_kit_selected\<rparr>) (snd drum_kit_selected)) =
     Inl (Exception ''device disconnected'')"
  by (simp add: drum_kit_selected_def select_output_def send_test_note_def send_message_def
        on_test_note_clicked_def send_fails_env_def working_env_def world0_def
        MidiManager_init_def call_def print_line_def Let_def)

text \<open>
  C2. A click on Play, a click on Stop and a toggle of Record, either way, return normally
  and leave the window as it was except for the text of the placeholder label and, for
  Record, the caption of the Record button. The MIDI manager inside the window is
  untouched, no call leaves the program (the list of outside calls is the same, so nothing
  is opened, sent, timed or stored), and the only other trace is one line on the console.
\<close>

theorem transport_buttons_only_change_labels:
  "connect_signals E PlayClicked win w =
     (Inr (),
      win\<lparr>placeholder_label :=
            (placeholder_label win)
              \<lparr>label_text := ''Play clicked'' @ [nl] @ ''(Placeholder: no audio yet)''\<rparr>\<rparr>,
      w\<lparr>console := console w @ [''Play clicked'']\<rparr>) \<and>
   connect_signals E StopClicked win w =
     (Inr (),
      win\<lparr>placeholder_label :=
            (placeholder_label win)
              \<lparr>label_text := ''Stop clicked'' @ [nl] @ ''(Placeholder: transport stopped)''\<rparr>\<rparr>,
      w\<lparr>console := console w @ [''Stop clicked'']\<rparr>) \<and>
   connect_signals E (RecordToggled True) win w =
     (Inr (),
      win\<lparr>record_button := (record_button win)\<lparr>button_text := ''Recording...''\<rparr>,
          placeholder_label :=
            (placeholder_label win)
              \<lparr>label_text := ''Recording...'' @ [nl] @ ''(Placeholder: no MIDI yet)''\<rparr>\<rparr>,
      w\<lparr>console := console w @ [''Record started'']\<rparr>) \<and>
   connect_signals E (RecordToggled False) win w =
     (Inr (),
      win\<lparr>record_button := (record_button win)\<lparr>button_text := ''Record''\<rparr>,
          placeholder_label :=
            (placeholder_label win)
              \<lparr>label_text :=
                 ''Recording stopped'' @ [nl] @ ''(Timeline / Drum Grid will go here)''\<rparr>\<rparr>,
      w\<lparr>console := console w @ [''Record stopped'']\<rparr>)"
  by (simp add: on_play_clicked_def on_stop_clicked_def on_record_toggled_def setText_def
        print_line_def)

text \<open>
  C3. With an output port \<open>h\<close> open, \<^verbatim>\<open>send_test_note\<close> makes exactly one outside call, the
  send on \<open>h\<close> of a \<open>note_on\<close> with channel 0, note 60 and velocity 100, and nothing after it
  (no \<open>note_off\<close>); this holds whether that send returns or raises. With no output port
  open it returns, makes no outside call at all, and in both cases the manager is left as
  it was.
\<close>

theorem send_test_note_single_note:
  "(current_output self = Some h \<longrightarrow>
      fst (snd (send_test_note E self w)) = self \<and>
      calls (snd (snd (send_test_note E self w))) =
        calls w @
        [PortSend h (Message ''note_on'' [(''channel'', 0), (''note'', 60), (''velocity'', 100)])]) \<and>
   (current_output self = None \<longrightarrow>
      fst (send_test_note E self w) = Inr () \<and>
      fst (snd (send_test_note E self w)) = self \<and>
      calls (snd (snd (send_test_note E self w))) = calls w)"
  by (simp add: send_test_note_def call_def print_line_def Let_def split: sum.splits)

theorem send_test_note_single_note_witness:
  "current_output
     (MidiManager_init\<lparr>current_output_name := Some ''Drum Kit'', current_output := Some 1\<rparr>) =
     Some 1 \<and>
   calls (snd (snd (send_test_note working_env
      (MidiManager_init\<lparr>current_output_name := Some ''Drum Kit'', current_output := Some 1\<rparr>)
      world0))) =
     [PortSend 1 (Message ''note_on'' [(''channel'', 0), (''note'', 60), (''velocity'', 100)])] \<and>
   current_output MidiManager_init = None \<and>
   calls (snd (snd (send_test_note working_env MidiManager_init world0))) = []"
  using send_test_note_single_note
      [of "MidiManager_init\<lparr>current_output_name := Some ''Drum Kit'', current_output := Some 1\<rparr>"
          1 working_env world0]
    send_test_note_single_note [of MidiManager_init 1 working_env world0]
  by (simp add: MidiManager_init_def world0_def)

text \<open>
  C4. For a port name that is not empty, if the open call raises (it is made after the close
  of the port held before, if any), then \<^verbatim>\<open>select_output\<close> returns \<open>False\<close> instead of
  raising, prints the error, and leaves \<^verbatim>\<open>current_output\<close> and \<^verbatim>\<open>current_output_name\<close> at
  \<open>None\<close>; \<^verbatim>\<open>select_input\<close> does the same and leaves \<^verbatim>\<open>current_input\<close>,
  \<^verbatim>\<open>current_input_name\<close> and \<^verbatim>\<open>input_callback\<close> at \<open>None\<close>.
\<close>

theorem select_failure_leaves_unselected:
  "(name \<noteq> [] \<and>
    mido_open_output E
      (calls w @ (case current_output self of None \<Rightarrow> [] | Some h \<Rightarrow> [PortClose h])) name =
      Inl (Exception e) \<longrightarrow>
      fst (select_output E name self w) = Inr False \<and>
      current_output (fst (snd (select_output E name self w))) = None \<and>
      current_output_name (fst (snd (select_output E name self w))) = None \<and>
      console (snd (snd (select_output E name self w))) =
        console w @ [''Error opening MIDI output '' @ name @ '': '' @ e]) \<and>
   (name \<noteq> [] \<and>
    mido_open_input E
      (calls w @ (case current_input self of None \<Rightarrow> [] | Some h \<Rightarrow> [PortClose h])) name =
      Inl (Exception e) \<longrightarrow>
      fst (select_input E name cb self w) = Inr False \<and>
      current_input (fst (snd (select_input E name cb self w))) = None \<and>
      current_input_name (fst (snd (select_input E name cb self w))) = None \<and>
      input_callback (fst (snd (select_input E name cb self w))) = None \<and>
      console (snd (snd (select_input E name cb self w))) =
        console w @ [''Error opening MIDI input '' @ name @ '': '' @ e])"
  by (simp add: select_output_def select_input_def call_def print_line_def Let_def
        calls_close_quietly console_close_quietly split: option.splits)

theorem select_failure_leaves_unselected_witness:
  "''Drum Kit'' \<noteq> [] \<and>
   mido_open_output unplugged_env
     (calls world0 @
      (case current_output MidiManager_init of None \<Rightarrow> [] | Some h \<Rightarrow> [PortClose h]))
     ''Drum Kit'' = Inl (Exception ''device disconnected'') \<and>
   mido_open_input unplugged_env
     (calls world0 @
      (case current_input MidiManager_init of None \<Rightarrow> [] | Some h \<Rightarrow> [PortClose h]))
     ''Drum Kit'' = Inl (Exception ''device disconnected'') \<and>
   fst (select_output unplugged_env ''Drum Kit'' MidiManager_init world0) = Inr False \<and>
   current_output (fst (snd (select_output unplugged_env ''Drum Kit'' MidiManager_init world0))) =
     None \<and>
   fst (select_input unplugged_env ''Drum Kit'' (Some 7) MidiManager_init world0) = Inr False \<and>
   input_callback
     (fst (snd (select_input unplugged_env ''Drum Kit'' (Some 7) MidiManager_init world0))) = None"
  using select_failure_leaves_unselected
      [of "''Drum Kit''" unplugged_env world0 MidiManager_init "''device disconnected''" "Some 7"]
  by (simp add: unplugged_env_def)

text \<open>
  C5. \<^verbatim>\<open>list_output_ports\<close> and \<^verbatim>\<open>list_input_ports\<close> always return a list of names and never
  raise. When the library returns a list they return that list; when the library raises
  they print the error and return the empty list. In both cases the manager is not changed.
\<close>

theorem list_ports_never_raise:
  "(\<exists>ports. fst (list_output_ports E self w) = Inr ports) \<and>
   (\<exists>ports. fst (list_input_ports E self w) = Inr ports) \<and>
   (\<forall>e. mido_get_output_names E (calls w) = Inl (Exception e) \<longrightarrow>
      list_output_ports E self w =
        (Inr [], self,
         print_line (''Error listing MIDI output ports: '' @ e) (call GetOutputNames w))) \<and>
   (\<forall>e. mido_get_input_names E (calls w) = Inl (Exception e) \<longrightarrow>
      list_input_ports E self w =
        (Inr [], self,
         print_line (''Error listing MIDI input ports: '' @ e) (call GetInputNames w))) \<and>
   (\<forall>ports. mido_get_output_names E (calls w) = Inr ports \<longrightarrow>
      list_output_ports E self w = (Inr ports, self, call GetOutputNames w)) \<and>
   (\<forall>ports. mido_get_input_names E (calls w) = Inr ports \<longrightarrow>
      list_input_ports E self w = (Inr ports, self, call GetInputNames w))"
  by (simp add: list_output_ports_def list_input_ports_def split: sum.splits exn.splits)

theorem list_ports_never_raise_witness:
  "mido_get_output_names unplugged_env (calls world0) = Inl (Exception ''device disconnected'') \<and>
   mido_get_input_names unplugged_env (calls world0) = Inl (Exception ''device disconnected'') \<and>
   fst (list_output_ports unplugged_env MidiManager_init world0) = Inr [] \<and>
   fst (list_input_ports unplugged_env MidiManager_init world0) = Inr [] \<and>
   mido_get_output_names working_env (calls world0) = Inr [''Drum Kit''] \<and>
   mido_get_input_names working_env (calls world0) = Inr [''Drum Kit''] \<and>
   fst (list_output_ports working_env MidiManager_init world0) = Inr [''Drum Kit''] \<and>
   fst (list_input_ports working_env MidiManager_init world0) = Inr [''Drum Kit'']"
  using list_ports_never_raise [of unplugged_env MidiManager_init world0]
    list_ports_never_raise [of working_env MidiManager_init world0]
  by (simp add: unplugged_env_def working_env_def)

text \<open>
  C6. For every incoming message, \<^verbatim>\<open>_handle_input_message\<close> returns normally and leaves the
  manager as it was. With a callback registered it reads the monotonic clock and then calls
  the callback once, with the message and the clock reading; if the callback raises, the
  error is printed and nothing is raised to the port that delivered the message. With no
  callback registered the clock read is the only thing that happens: nothing is called and
  nothing is printed.
\<close>

theorem handle_input_message_relays:
  "fst (handle_input_message E msg self w) = Inr () \<and>
   fst (snd (handle_input_message E msg self w)) = self \<and>
   (\<forall>cb. input_callback self = Some cb \<longrightarrow>
      calls (snd (snd (handle_input_message E msg self w))) =
        calls w @ [Monotonic, InputCallback cb msg (time_monotonic E (calls w))]) \<and>
   (\<forall>cb e. input_callback self = Some cb \<and>
      invoke_callback E (calls w @ [Monotonic]) cb msg (time_monotonic E (calls w)) =
        Inl (Exception e) \<longrightarrow>
      console (snd (snd (handle_input_message E msg self w))) =
        console w @ [''Error in input_callback: '' @ e]) \<and>
   (input_callback self = None \<longrightarrow>
      snd (snd (handle_input_message E msg self w)) = call Monotonic w)"
  by (simp add: handle_input_message_def call_def print_line_def Let_def
        split: sum.splits exn.splits option.splits)

theorem handle_input_message_relays_witness:
  "input_callback (MidiManager_init\<lparr>input_callback := Some 7\<rparr>) = Some 7 \<and>
   invoke_callback unplugged_env (calls world0 @ [Monotonic]) 7
     (Message ''note_on'' [(''note'', 36)])
     (time_monotonic unplugged_env (calls world0)) = Inl (Exception ''callback failed'') \<and>
   fst (handle_input_message unplugged_env (Message ''note_on'' [(''note'', 36)])
          (MidiManager_init\<lparr>input_callback := Some 7\<rparr>) world0) = Inr () \<and>
   calls (snd (snd (handle_input_message unplugged_env (Message ''note_on'' [(''note'', 36)])
          (MidiManager_init\<lparr>input_callback := Some 7\<rparr>) world0))) =
     [Monotonic, InputCallback 7 (Message ''note_on'' [(''note'', 36)]) 0] \<and>
   console (snd (snd (handle_input_message unplugged_env (Message ''note_on'' [(''note'', 36)])
          (MidiManager_init\<lparr>input_callback := Some 7\<rparr>) world0))) =
     [''Error in input_callback: callback failed''] \<and>
   input_callback MidiManager_init = None \<and>
   snd (snd (handle_input_message unplugged_env (Message ''note_on'' [(''note'', 36)])
          MidiManager_init world0)) = call Monotonic world0"
  using handle_input_message_relays
      [of unplugged_env "Message ''note_on'' [(''note'', 36)]"
          "MidiManager_init\<lparr>input_callback := Some 7\<rparr>" world0]
    handle_input_message_relays
      [of unplugged_env "Message ''note_on'' [(''note'', 36)]" MidiManager_init world0]
  by (simp add: unplugged_env_def MidiManager_init_def world0_def)

text \<open>
  C7. The claim: starting Recording while the transport is Playing is rejected with
  \<open>InvalidStateError\<close> and changes no state. The program has no transport controller, no
  Playing or Recording state and no such error: what it calls "Record started" is the
  Record toggle switched on, and what it knows of playing is that Play was clicked. On the
  window as its constructor leaves it, with Play clicked, switching Record on returns
  normally and changes the window: the caption of the Record button goes from \<open>Record\<close> to
  \<open>Recording...\<close>.
\<close>

theorem record_while_playing_counterexample:
  "fst (connect_signals working_env (RecordToggled True)
          (fst play_clicked_window) (snd play_clicked_window)) = Inr () \<and>
   button_text (record_button (fst play_clicked_window)) = ''Record'' \<and>
   button_text (record_button (fst (snd (connect_signals working_env (RecordToggled True)
          (fst play_clicked_window) (snd play_clicked_window))))) = ''Recording...'' \<and>
   fst (snd (connect_signals working_env (RecordToggled True)
          (fst play_clicked_window) (snd play_clicked_window))) \<noteq> fst play_clicked_window"
  by (simp add: play_clicked_window_def on_play_clicked_def on_record_toggled_def
        MainWindow_init_def create_central_widget_def and_then_def refresh_midi_outputs_def
        refresh_midi_inputs_def log_available_midi_ports_def list_output_ports_def
        list_input_ports_def working_env_def world0_def call_def print_line_def print_ports_def
        new_window_def MidiManager_init_def QPushButton_def QComboBox_def QLabel_def clear_def
        addItem_def addItems_def setItemData_def UserRole_def setText_def Let_def)

text \<open>
  C7 as the code has it: switching Record on right after a click on Play, on any window, is
  accepted. The handler returns normally, sets the caption of the Record button to
  \<open>Recording...\<close> and the placeholder label to its recording text, prints
  \<open>Record started\<close>, and changes nothing else.
\<close>

theorem record_toggle_after_play_accepted:
  "connect_signals E (RecordToggled True)
     (fst (snd (connect_signals E PlayClicked win w)))
     (snd (snd (connect_signals E PlayClicked win w))) =
   (Inr (),
    win\<lparr>record_button := (record_button win)\<lparr>button_text := ''Recording...''\<rparr>,
        placeholder_label :=
          (placeholder_label win)
            \<lparr>label_text := ''Recording...'' @ [nl] @ ''(Placeholder: no MIDI yet)''\<rparr>\<rparr>,
    w\<lparr>console := console w @ [''Play clicked'', ''Record started'']\<rparr>)"
  by (simp add: on_play_clicked_def on_record_toggled_def setText_def print_line_def)

text \<open>
  C8. A port handle is held exactly when its name is, for the output and for the input:
  this holds of a new manager, every operation keeps it (selecting, sending, listing,
  handling an incoming message, closing; whatever the device does and whether the
  operation returns or raises), and so it holds after any sequence of operations on a new
  manager.
\<close>

theorem port_and_name_paired:
  "paired MidiManager_init \<and>
   (paired self \<longrightarrow> paired (fst (perform E x self w))) \<and>
   paired (fst (run E xs MidiManager_init w))"
  by (simp add: paired_init paired_perform paired_run)

theorem port_and_name_paired_witness:
  "paired MidiManager_init \<and>
   paired (fst (perform working_env (SelectOutput ''Drum Kit'') MidiManager_init world0)) \<and>
   current_output (fst (perform working_env (SelectOutput ''Drum Kit'') MidiManager_init world0)) =
     Some 1"
  using port_and_name_paired
      [of MidiManager_init working_env "SelectOutput ''Drum Kit''" world0 "[]"]
  by (simp add: select_output_def working_env_def MidiManager_init_def Let_def)

text \<open>
  C9. When a port \<open>h\<close> is held, \<^verbatim>\<open>select_output\<close> first calls \<open>close\<close> on \<open>h\<close> and only
  then, and only for a name that is not empty, calls the open: these are the outside calls
  it makes, in this order. An empty name gives \<open>False\<close>. Whenever the result is \<open>False\<close>
  (empty name or failed open) the manager is the one before the call with the port and its
  name cleared: the earlier selection is not put back. When the result is \<open>True\<close> the port
  held is the one the open returned, under the new name. \<^verbatim>\<open>select_input\<close> does the same and
  clears the callback as well.
\<close>

theorem select_closes_previous_port_first:
  "(current_output self = Some h \<longrightarrow>
      calls (snd (snd (select_output E name self w))) =
        calls w @ PortClose h # (if name = [] then [] else [OpenOutput name]) \<and>
      (fst (select_output E name self w) = Inr False \<longrightarrow>
         fst (snd (select_output E name self w)) =
           self\<lparr>current_output := None, current_output_name := None\<rparr>) \<and>
      (fst (select_output E name self w) = Inr True \<longrightarrow>
         current_output_name (fst (snd (select_output E name self w))) = Some name \<and>
         mido_open_output E (calls w @ [PortClose h]) name =
           Inr (the (current_output (fst (snd (select_output E name self w)))))) \<and>
      (name = [] \<longrightarrow> fst (select_output E name self w) = Inr False)) \<and>
   (current_input self = Some h \<longrightarrow>
      calls (snd (snd (select_input E name cb self w))) =
        calls w @ PortClose h # (if name = [] then [] else [OpenInput name]) \<and>
      (fst (select_input E name cb self w) = Inr False \<longrightarrow>
         fst (snd (select_input E name cb self w)) =
           self\<lparr>current_input := None, current_input_name := None, input_callback := None\<rparr>) \<and>
      (fst (select_input E name cb self w) = Inr True \<longrightarrow>
         current_input_name (fst (snd (select_input E name cb self w))) = Some name \<and>
         mido_open_input E (calls w @ [PortClose h]) name =
           Inr (the (current_input (fst (snd (select_input E name cb self w)))))) \<and>
      (name = [] \<longrightarrow> fst (select_input E name cb self w) = Inr False))"
  by (simp add: select_output_def select_input_def call_def print_line_def Let_def
        calls_close_quietly split: option.splits sum.splits exn.splits)

theorem select_closes_previous_port_first_witness:
  "current_output
     (MidiManager_init\<lparr>current_output_name := Some ''Drum Kit'', current_output := Some 1\<rparr>) =
     Some 1 \<and>
   fst (select_output unplugged_env ''Pad''
      (MidiManager_init\<lparr>current_output_name := Some ''Drum Kit'', current_output := Some 1\<rparr>)
      world0) = Inr False \<and>
   calls (snd (snd (select_output unplugged_env ''Pad''
      (MidiManager_init\<lparr>current_output_name := Some ''Drum Kit'', current_output := Some 1\<rparr>)
      world0))) = [PortClose 1, OpenOutput ''Pad''] \<and>
   fst (snd (select_output unplugged_env ''Pad''
      (MidiManager_init\<lparr>current_output_name := Some ''Drum Kit'', current_output := Some 1\<rparr>)
      world0)) = MidiManager_init \<and>
   current_input
     (MidiManager_init\<lparr>current_input_name := Some ''Drum Kit'', current_input := Some 1\<rparr>) =
     Some 1 \<and>
   fst (select_input working_env [] (Some 7)
      (MidiManager_init\<lparr>current_input_name := Some ''Drum Kit'', current_input := Some 1\<rparr>)
      world0) = Inr False \<and>
   calls (snd (snd (select_input working_env [] (Some 7)
      (MidiManager_init\<lparr>current_input_name := Some ''Drum Kit'', current_input := Some 1\<rparr>)
      world0))) = [PortClose 1] \<and>
   fst (snd (select_input working_env [] (Some 7)
      (MidiManager_init\<lparr>current_input_name := Some ''Drum Kit'', current_input := Some 1\<rparr>)
      world0)) = MidiManager_init"
  using select_closes_previous_port_first
      [of "MidiManager_init\<lparr>current_output_name := Some ''Drum Kit'', current_output := Some 1\<rparr>"
          1 unplugged_env "''Pad''" world0]
    select_closes_previous_port_first
      [of "MidiManager_init\<lparr>current_input_name := Some ''Drum Kit'', current_input := Some 1\<rparr>"
          1 working_env "[]" world0 "Some 7"]
  by (simp add: MidiManager_init_def world0_def unplugged_env_def select_output_def Let_def
        close_quietly_def call_def)

text \<open>
  C10. \<^verbatim>\<open>close_all\<close> never raises, whatever the two \<open>close\<close> calls do. It always
  leaves \<^verbatim>\<open>current_output\<close> and \<^verbatim>\<open>current_input\<close> at \<open>None\<close>, and from a manager that holds
  each port exactly when it holds its name, so from the manager any sequence of operations
  leaves behind, \<^verbatim>\<open>current_output_name\<close> and \<^verbatim>\<open>current_input_name\<close> are \<open>None\<close> as well.
  A second call, on the state the first one produced and whatever the device does then,
  returns and changes nothing: neither the manager nor the world.
\<close>

theorem close_all_clears_and_is_idempotent:
  "fst (close_all E self w) = Inr () \<and>
   (paired self \<longrightarrow>
      current_output (fst (snd (close_all E self w))) = None \<and>
      current_output_name (fst (snd (close_all E self w))) = None \<and>
      current_input (fst (snd (close_all E self w))) = None \<and>
      current_input_name (fst (snd (close_all E self w))) = None) \<and>
   current_output_name (fst (snd (close_all E (fst (run E0 xs MidiManager_init w0)) w))) = None \<and>
   current_input_name (fst (snd (close_all E (fst (run E0 xs MidiManager_init w0)) w))) = None \<and>
   close_all E' (fst (snd (close_all E self w))) (snd (snd (close_all E self w))) =
     (Inr (), snd (close_all E self w))"
  using close_all_result [of E self w] close_all_ports_none [of E self w]
    close_all_names_none [of self E w] close_all_again [of E' E self w]
    close_all_names_none [OF paired_run [OF paired_init, of E0 xs w0], of E w]
  by simp

theorem close_all_clears_and_is_idempotent_witness:
  "paired
     (MidiManager_init\<lparr>current_output_name := Some ''Drum Kit'', current_output := Some 1,
        current_input_name := Some ''Drum Kit'', current_input := Some 2\<rparr>) \<and>
   fst (snd (close_all unplugged_env
      (MidiManager_init\<lparr>current_output_name := Some ''Drum Kit'', current_output := Some 1,
         current_input_name := Some ''Drum Kit'', current_input := Some 2\<rparr>) world0)) =
     MidiManager_init \<and>
   calls (snd (snd (close_all unplugged_env
      (MidiManager_init\<lparr>current_output_name := Some ''Drum Kit'', current_output := Some 1,
         current_input_name := Some ''Drum Kit'', current_input := Some 2\<rparr>) world0))) =
     [PortClose 1, PortClose 2]"
  using close_all_clears_and_is_idempotent
      [of unplugged_env
          "MidiManager_init\<lparr>current_output_name := Some ''Drum Kit'', current_output := Some 1,
             current_input_name := Some ''Drum Kit'', current_input := Some 2\<rparr>"
          world0 unplugged_env "[]" world0 unplugged_env]
  by (simp add: paired_def MidiManager_init_def world0_def close_all_def Let_def
        close_quietly_def call_def)

end
